theory Spec2Isabelle
  imports Main "HOL-Library.Word"
begin

unbundle bit_operations_syntax

section \<open>The thumbnail function of Backend-Azure-Functions/GenerateThumbnail\<close>

text \<open>
  The module \<^verbatim>\<open>GenerateThumbnail/__init__.py\<close> has one function, \<^verbatim>\<open>main\<close>. It looks
  up the uploaded file, decodes it with Pillow, shrinks it, encodes the result as JPEG,
  builds two blob names from a fresh UUID, connects to the blob service named by an
  environment variable, uploads the original and the thumbnail, and answers with the
  two URLs. Every library call inside the second \<^verbatim>\<open>try\<close> block shares one handler, which
  answers 500.

  The libraries (the HTTP request parser, Pillow, \<^verbatim>\<open>uuid\<close>, \<^verbatim>\<open>os.environ\<close> and the
  Azure blob client) are not part of the repository. They are the fields of the record
  \<open>world\<close> below, so that every theorem about \<open>main\<close> holds for whatever these
  libraries do. Two library rules are written out: Python's own formatting of a UUID,
  and the size that Pillow gives a thumbnail, which is modelled from the specification
  and stands beside \<open>main\<close> rather than inside it.
\<close>

subsection \<open>Data\<close>

type_synonym bytes = "8 word list"

text \<open>A Python exception, as far as \<^verbatim>\<open>except Exception\<close> can tell: it was raised.\<close>

datatype exn = KeyError string | Raised string

text \<open>The uploaded part: \<^verbatim>\<open>file.filename\<close> and what \<^verbatim>\<open>file.read()\<close> returns.\<close>

record file_storage =
  filename :: string
  content :: bytes

text \<open>
  \<^verbatim>\<open>req.files\<close> is a multi-dictionary from field names to uploaded parts, in the order of
  the request body; \<^verbatim>\<open>.get\<close> returns the first part of that name. Reading the property
  parses the body and may raise (\<open>Inl\<close>).
\<close>

record http_request =
  files :: "exn + (string \<times> file_storage) list"

text \<open>
  \<^verbatim>\<open>func.HttpResponse(body, status_code=..., mimetype=...)\<close>. The body is either a text
  or what \<^verbatim>\<open>json.dumps\<close> is given: a dictionary of strings, in insertion order.
  \<open>mimetype = None\<close> is a call that does not pass the argument.
\<close>

datatype body = Text string | Json "(string \<times> string) list"

record http_response =
  body :: body
  status_code :: nat
  mimetype :: "string option"

text \<open>
  The libraries and the surroundings of one invocation.
  \<^item> \<open>file_bool\<close>: the truth value Python gives the uploaded part in \<^verbatim>\<open>if not file\<close>;
  \<^item> \<open>Image_open\<close>, \<open>Image_thumbnail\<close>, \<open>Image_save\<close>: Pillow's \<^verbatim>\<open>Image.open\<close>,
    \<^verbatim>\<open>image.thumbnail(size)\<close> (which changes the image in place: here it returns the
    changed image) and \<^verbatim>\<open>image.save(buffer, format=...)\<close> (here it returns the bytes
    written to the buffer);
  \<^item> \<open>uuid4\<close>: the 128-bit value that \<^verbatim>\<open>uuid.uuid4()\<close> returns in this invocation;
  \<^item> \<open>environ\<close>: \<^verbatim>\<open>os.environ\<close>;
  \<^item> \<open>from_connection_string\<close>: \<^verbatim>\<open>BlobServiceClient.from_connection_string\<close>;
  \<^item> \<open>upload_blob\<close>: \<^verbatim>\<open>get_blob_client(container, blob).upload_blob(data, overwrite=True)\<close>
    on a client, \<open>Inl\<close> when it raises;
  \<^item> \<open>blob_url\<close>: the \<^verbatim>\<open>url\<close> property of \<^verbatim>\<open>get_blob_client(container, blob)\<close>.
\<close>

record ('img, 'cl) world =
  file_bool :: "file_storage \<Rightarrow> bool"
  Image_open :: "bytes \<Rightarrow> exn + 'img"
  Image_thumbnail :: "'img \<Rightarrow> nat \<times> nat \<Rightarrow> exn + 'img"
  Image_save :: "'img \<Rightarrow> string \<Rightarrow> exn + bytes"
  uuid4 :: "128 word"
  environ :: "string \<rightharpoonup> string"
  from_connection_string :: "string \<Rightarrow> exn + 'cl"
  upload_blob :: "'cl \<Rightarrow> string \<Rightarrow> string \<Rightarrow> bytes \<Rightarrow> exn + unit"
  blob_url :: "'cl \<Rightarrow> string \<Rightarrow> string \<Rightarrow> string"

subsection \<open>The calls a run makes\<close>

text \<open>
  A run is observed through the library calls of the second \<^verbatim>\<open>try\<close> block, in the order
  they are made, each with whether it returned (\<open>True\<close>) or raised (\<open>False\<close>). An upload
  carries its container, blob name and data.
\<close>

datatype call =
    OpenImage
  | MakeThumbnail
  | SaveImage
  | ReadEnviron
  | Connect
  | Upload string string bytes

type_synonym event = "call \<times> bool"

subsection \<open>Python's \<^verbatim>\<open>str(uuid)\<close>\<close>

text \<open>
  \<^verbatim>\<open>UUID.__str__\<close> formats the 128-bit value with \<^verbatim>\<open>'%032x'\<close> and cuts the 32
  digits into groups of 8, 4, 4, 4 and 12, joined by dashes.
\<close>

definition hex_digit :: "nat \<Rightarrow> char" where
  "hex_digit n = ''0123456789abcdef'' ! n"

definition hex32 :: "128 word \<Rightarrow> string" where
  "hex32 u = map (\<lambda>i. hex_digit (unat (drop_bit (4 * (31 - i)) u AND 15))) [0..<32]"

definition uuid_str :: "128 word \<Rightarrow> string" where
  "uuid_str u =
     (let h = hex32 u
      in take 8 h @ ''-'' @ take 4 (drop 8 h) @ ''-'' @ take 4 (drop 12 h) @ ''-'' @
         take 4 (drop 16 h) @ ''-'' @ drop 20 h)"

subsection \<open>\<^verbatim>\<open>main\<close>\<close>

text \<open>\<^verbatim>\<open>os.environ[key]\<close> raises \<^verbatim>\<open>KeyError\<close> for a variable that is not set.\<close>

definition environ_getitem :: "(string \<rightharpoonup> string) \<Rightarrow> string \<Rightarrow> exn + string" where
  "environ_getitem env k = (case env k of None \<Rightarrow> Inl (KeyError k) | Some v \<Rightarrow> Inr v)"

text \<open>The handler of the second \<^verbatim>\<open>try\<close> block (lines 104 to 109).\<close>

definition error_processing_image :: http_response where
  "error_processing_image =
     \<lparr>body = Text ''Error processing image'', status_code = 500, mimetype = None\<rparr>"

text \<open>
  One call inside the second \<^verbatim>\<open>try\<close> block: when it raises, the handler's response is
  returned; otherwise the rest of the block runs with the value. Either way the call is
  added to the calls made so far.
\<close>

definition attempt ::
  "call \<Rightarrow> exn + 'a \<Rightarrow> event list \<Rightarrow> ('a \<Rightarrow> event list \<Rightarrow> http_response \<times> event list)
     \<Rightarrow> http_response \<times> event list" where
  "attempt c r tr k =
     (case r of
        Inl e \<Rightarrow> (error_processing_image, tr @ [(c, False)])
      | Inr v \<Rightarrow> k v (tr @ [(c, True)]))"

text \<open>
  \<^verbatim>\<open>main(req)\<close>, lines 28 to 109: the response and the calls made. \<^verbatim>\<open>not file\<close> holds for
  \<^verbatim>\<open>None\<close> and for a part whose truth value is false.

  Left out, as they change neither the response nor the store: the \<^verbatim>\<open>logging\<close> calls,
  \<^verbatim>\<open>thumb_buffer.seek(0)\<close> and the two \<^verbatim>\<open>get_blob_client\<close> calls, which only build the
  handles that \<open>upload_blob\<close> and \<open>blob_url\<close> stand for. \<^verbatim>\<open>file.read()\<close> is taken to
  return the bytes of the part, and an upload that raises to have written nothing.
\<close>

definition main :: "('img, 'cl) world \<Rightarrow> http_request \<Rightarrow> http_response \<times> event list" where
  "main w req =
     (case files req of
        Inl e \<Rightarrow>
          (\<lparr>body = Text ''Error processing request'', status_code = 500, mimetype = None\<rparr>, [])
      | Inr fs \<Rightarrow>
          (case map_of fs ''file'' of
             None \<Rightarrow> (\<lparr>body = Text ''No file uploaded'', status_code = 400, mimetype = None\<rparr>, [])
           | Some file \<Rightarrow>
               if \<not> file_bool w file
               then (\<lparr>body = Text ''No file uploaded'', status_code = 400, mimetype = None\<rparr>, [])
               else
                 let image_bytes = content file in
                 attempt OpenImage (Image_open w image_bytes) [] (\<lambda>image tr.
                 let thumbnail_size = (128, 128) in
                 attempt MakeThumbnail (Image_thumbnail w image thumbnail_size) tr (\<lambda>thumb tr.
                 attempt SaveImage (Image_save w thumb ''JPEG'') tr (\<lambda>thumb_buffer tr.
                 let original_blob_name = uuid_str (uuid4 w) @ ''_'' @ filename file;
                     thumbnail_blob_name = ''thumb_'' @ original_blob_name in
                 attempt ReadEnviron (environ_getitem (environ w) ''AzureWebJobsStorage'') tr
                   (\<lambda>conn_str tr.
                 attempt Connect (from_connection_string w conn_str) tr (\<lambda>blob_service_client tr.
                 let original_container = ''originalimages'' in
                 attempt (Upload original_container original_blob_name image_bytes)
                   (upload_blob w blob_service_client original_container original_blob_name
                      image_bytes) tr (\<lambda>_ tr.
                 let thumbnail_container = ''thumbnails'' in
                 attempt (Upload thumbnail_container thumbnail_blob_name thumb_buffer)
                   (upload_blob w blob_service_client thumbnail_container thumbnail_blob_name
                      thumb_buffer) tr (\<lambda>_ tr.
                 let original_url =
                       blob_url w blob_service_client original_container original_blob_name;
                     thumbnail_url =
                       blob_url w blob_service_client thumbnail_container thumbnail_blob_name;
                     response_body =
                       [(''original_url'', original_url), (''thumbnail_url'', thumbnail_url)]
                 in (\<lparr>body = Json response_body, status_code = 200,
                      mimetype = Some ''application/json''\<rparr>, tr))))))))))"

subsection \<open>What a run leaves in the object store\<close>

text \<open>
  The writes of a run are its uploads that returned, as (container, blob name, data).
  An object store maps (container, blob name) to data; with \<^verbatim>\<open>overwrite=True\<close> a write
  replaces what the name held.
\<close>

fun writes :: "event list \<Rightarrow> (string \<times> string \<times> bytes) list" where
  "writes [] = []"
| "writes ((Upload c n d, True) # tr) = (c, n, d) # writes tr"
| "writes (_ # tr) = writes tr"

fun uploads :: "event list \<Rightarrow> event list" where
  "uploads [] = []"
| "uploads ((Upload c n d, ok) # tr) = (Upload c n d, ok) # uploads tr"
| "uploads (_ # tr) = uploads tr"

type_synonym store = "string \<times> string \<rightharpoonup> bytes"

fun put_all :: "store \<Rightarrow> (string \<times> string \<times> bytes) list \<Rightarrow> store" where
  "put_all s [] = s"
| "put_all s ((c, n, d) # ws) = put_all (s((c, n) \<mapsto> d)) ws"

text \<open>The part that \<^verbatim>\<open>req.files.get("file")\<close> returns, when the request has one.\<close>

definition uploaded_file :: "http_request \<Rightarrow> file_storage option" where
  "uploaded_file req = (case files req of Inl e \<Rightarrow> None | Inr fs \<Rightarrow> map_of fs ''file'')"

text \<open>The two blob names of lines 59 to 64, for a run of \<open>w\<close> on the part \<open>file\<close>.\<close>

definition original_name :: "('img, 'cl) world \<Rightarrow> file_storage \<Rightarrow> string" where
  "original_name w file = uuid_str (uuid4 w) @ ''_'' @ filename file"

definition thumbnail_name :: "('img, 'cl) world \<Rightarrow> file_storage \<Rightarrow> string" where
  "thumbnail_name w file = ''thumb_'' @ original_name w file"

subsection \<open>The error kinds of the specification\<close>

text \<open>
  The specification names three kinds of failure; the code has no such type. They are
  told apart here by the step that fails: no usable \<^verbatim>\<open>file\<close> part (MissingFile),
  \<^verbatim>\<open>Image.open\<close> raising (DecodeFailure), and any later call of the second \<^verbatim>\<open>try\<close>
  block raising (ProcessingFailure). \<open>step_after_decoding_fails\<close> reads the calls after
  \<^verbatim>\<open>Image.open\<close> in the order of lines 51 to 90: the first one that raises makes it true.
\<close>

definition step_after_decoding_fails ::
  "('img, 'cl) world \<Rightarrow> file_storage \<Rightarrow> 'img \<Rightarrow> bool" where
  "step_after_decoding_fails w file img =
     (case Image_thumbnail w img (128, 128) of Inl e \<Rightarrow> True | Inr thumb \<Rightarrow>
      case Image_save w thumb ''JPEG'' of Inl e \<Rightarrow> True | Inr thumb_buffer \<Rightarrow>
      case environ w ''AzureWebJobsStorage'' of None \<Rightarrow> True | Some conn_str \<Rightarrow>
      case from_connection_string w conn_str of Inl e \<Rightarrow> True | Inr client \<Rightarrow>
      case upload_blob w client ''originalimages'' (original_name w file) (content file) of
        Inl e \<Rightarrow> True | Inr u \<Rightarrow>
      case upload_blob w client ''thumbnails'' (thumbnail_name w file) thumb_buffer of
        Inl e \<Rightarrow> True | Inr u \<Rightarrow> False)"

datatype error_kind = MissingFile | DecodeFailure | ProcessingFailure

text \<open>
  A request whose \<^verbatim>\<open>files\<close> cannot be read at all (the handler of lines 38 to 42) is
  none of the three kinds, and neither is a run in which nothing fails.
\<close>

definition error_kind :: "('img, 'cl) world \<Rightarrow> http_request \<Rightarrow> error_kind option" where
  "error_kind w req =
     (case files req of
        Inl e \<Rightarrow> None
      | Inr fs \<Rightarrow>
          (case map_of fs ''file'' of
             None \<Rightarrow> Some MissingFile
           | Some file \<Rightarrow>
               if \<not> file_bool w file then Some MissingFile
               else (case Image_open w (content file) of
                       Inl e \<Rightarrow> Some DecodeFailure
                     | Inr img \<Rightarrow>
                         if step_after_decoding_fails w file img
                         then Some ProcessingFailure else None)))"

subsection \<open>Concrete surroundings and requests\<close>

text \<open>
  Small stand-ins for the libraries, on which \<open>main\<close> can be run. An image is its own
  bytes; decoding accepts what starts with the JPEG marker FF D8; the truth value of an
  uploaded part is that of its filename, as in the \<^verbatim>\<open>FileStorage\<close> class that
  \<^verbatim>\<open>req.files\<close> holds. The variants differ from \<open>demo_world\<close> in one field each.
\<close>

definition jpeg_bytes :: bytes where
  "jpeg_bytes = [0xFF, 0xD8, 0xFF, 0xD9]"

definition demo_world :: "(bytes, string) world" where
  "demo_world =
     \<lparr>file_bool = (\<lambda>f. filename f \<noteq> []),
      Image_open = (\<lambda>bs. if take 2 bs = [0xFF, 0xD8] then Inr bs
                          else Inl (Raised ''UnidentifiedImageError'')),
      Image_thumbnail = (\<lambda>img size. Inr img),
      Image_save = (\<lambda>img fmt. Inr (img @ [0])),
      uuid4 = 1,
      environ = [''AzureWebJobsStorage'' \<mapsto> ''UseDevelopmentStorage=true''],
      from_connection_string = (\<lambda>s. if s = [] then Inl (Raised ''ValueError'') else Inr s),
      upload_blob = (\<lambda>cl c n d. Inr ()),
      blob_url = (\<lambda>cl c n. ''http://127.0.0.1:10000/devstoreaccount1/'' @ c @ ''/'' @ n)\<rparr>"

definition no_credential_world :: "(bytes, string) world" where
  "no_credential_world = demo_world\<lparr>environ := Map.empty\<rparr>"

definition thumbnail_upload_fails_world :: "(bytes, string) world" where
  "thumbnail_upload_fails_world =
     demo_world\<lparr>upload_blob :=
       (\<lambda>cl c n d. if c = ''thumbnails'' then Inl (Raised ''ServiceRequestError'') else Inr ())\<rparr>"

definition second_world :: "(bytes, string) world" where
  "second_world = demo_world\<lparr>uuid4 := 2\<rparr>"

definition photo :: file_storage where
  "photo = \<lparr>filename = ''a.jpg'', content = jpeg_bytes\<rparr>"

definition empty_file :: file_storage where
  "empty_file = \<lparr>filename = ''a.jpg'', content = []\<rparr>"

definition garbage_file :: file_storage where
  "garbage_file = \<lparr>filename = ''a.bin'', content = [1, 2, 3]\<rparr>"

definition photo_request :: http_request where
  "photo_request = \<lparr>files = Inr [(''file'', photo)]\<rparr>"

definition empty_file_request :: http_request where
  "empty_file_request = \<lparr>files = Inr [(''file'', empty_file)]\<rparr>"

definition garbage_request :: http_request where
  "garbage_request = \<lparr>files = Inr [(''file'', garbage_file)]\<rparr>"

definition no_file_request :: http_request where
  "no_file_request = \<lparr>files = Inr []\<rparr>"

text \<open>
  A part with undecodable bytes and an empty filename, and surroundings in which an
  image has a mode and the JPEG writer refuses the mode RGBA, as Pillow's does. A PNG
  file (first bytes 89 50 4E 47) is decoded to an RGBA image here.
\<close>

definition unnamed_garbage_file :: file_storage where
  "unnamed_garbage_file = \<lparr>filename = [], content = [1, 2, 3]\<rparr>"

definition unnamed_garbage_request :: http_request where
  "unnamed_garbage_request = \<lparr>files = Inr [(''file'', unnamed_garbage_file)]\<rparr>"

definition png_bytes :: bytes where
  "png_bytes = [0x89, 0x50, 0x4E, 0x47, 0x0D, 0x0A, 0x1A, 0x0A]"

definition rgba_world :: "(string \<times> bytes, string) world" where
  "rgba_world =
     \<lparr>file_bool = (\<lambda>f. filename f \<noteq> []),
      Image_open = (\<lambda>bs. if take 4 bs = [0x89, 0x50, 0x4E, 0x47] then Inr (''RGBA'', bs)
                          else if take 2 bs = [0xFF, 0xD8] then Inr (''RGB'', bs)
                          else Inl (Raised ''UnidentifiedImageError'')),
      Image_thumbnail = (\<lambda>img size. Inr img),
      Image_save = (\<lambda>img fmt. if fmt = ''JPEG'' \<and> fst img = ''RGBA''
                                then Inl (Raised ''OSError: cannot write mode RGBA as JPEG'')
                                else Inr (snd img @ [0])),
      uuid4 = 1,
      environ = [''AzureWebJobsStorage'' \<mapsto> ''UseDevelopmentStorage=true''],
      from_connection_string = (\<lambda>s. if s = [] then Inl (Raised ''ValueError'') else Inr s),
      upload_blob = (\<lambda>cl c n d. Inr ()),
      blob_url = (\<lambda>cl c n. ''http://127.0.0.1:10000/devstoreaccount1/'' @ c @ ''/'' @ n)\<rparr>"

definition png_file :: file_storage where
  "png_file = \<lparr>filename = ''a.png'', content = png_bytes\<rparr>"

definition png_request :: http_request where
  "png_request = \<lparr>files = Inr [(''file'', png_file)]\<rparr>"

subsection \<open>The size of a thumbnail\<close>

text \<open>
  Modelled from the spec: the size that \<^verbatim>\<open>image.thumbnail(size)\<close> gives the image. The
  routine belongs to Pillow and is not in the repository; \<open>main\<close> only passes it the box
  (128, 128). The specification asks for a bounding box that preserves the aspect ratio,
  scales the longer side down to the box and never enlarges an image that already fits.
  The side that is not set to the box is the exact quotient rounded down or up,
  whichever of the two gives the ratio closer to the original one (down on a tie), and
  at least 1. All of it is written in whole numbers, for an image of width \<open>w\<close> and
  height \<open>h\<close> and a box of width \<open>x\<close> and height \<open>y\<close>.
\<close>

text \<open>
  Modelled from the spec: the width for the full box height \<open>y\<close>, the quotient
  \<open>y * w / h\<close> rounded to the neighbour \<open>n\<close> with the smaller \<open>|w / h - n / y|\<close>.
\<close>

definition fit_width :: "nat \<Rightarrow> nat \<Rightarrow> nat \<Rightarrow> nat" where
  "fit_width y w h =
     (let f = (y * w) div h;
          c = (if h dvd y * w then f else f + 1)
      in max (if y * w - f * h \<le> c * h - y * w then f else c) 1)"

text \<open>
  Modelled from the spec: the height for the full box width \<open>x\<close>, the quotient
  \<open>x * h / w\<close> rounded to the neighbour \<open>n\<close> with the smaller \<open>|w / h - x / n|\<close>; the
  neighbour 0 is taken when it is the lower one, and then raised to 1.
\<close>

definition fit_height :: "nat \<Rightarrow> nat \<Rightarrow> nat \<Rightarrow> nat" where
  "fit_height x w h =
     (let f = (x * h) div w;
          c = (if w dvd x * h then f else f + 1)
      in max (if f = 0 \<or> (x * h - w * f) * c \<le> (w * c - x * h) * f then f else c) 1)"

text \<open>
  Modelled from the spec: the size of the thumbnail of a \<open>w\<close> by \<open>h\<close> image in the box
  \<open>(x, y)\<close>. An image that fits keeps its size; otherwise the side that is
  proportionally longer is set to the box and the other one follows.
\<close>

definition thumbnail_size :: "nat \<times> nat \<Rightarrow> nat \<times> nat \<Rightarrow> nat \<times> nat" where
  "thumbnail_size box dims =
     (case box of (x, y) \<Rightarrow> case dims of (w, h) \<Rightarrow>
        if w \<le> x \<and> h \<le> y then (w, h)
        else if w * y \<le> x * h then (fit_width y w h, y)
        else (x, fit_height x w h))"

section \<open>Auxiliary facts\<close>

lemmas demo_defs = demo_world_def no_credential_world_def thumbnail_upload_fails_world_def
  second_world_def photo_def empty_file_def garbage_file_def photo_request_def
  empty_file_request_def garbage_request_def no_file_request_def jpeg_bytes_def
  unnamed_garbage_file_def unnamed_garbage_request_def png_bytes_def rgba_world_def
  png_file_def png_request_def

lemmas run_defs = main_def Let_def attempt_def environ_getitem_def error_processing_image_def
  uploaded_file_def original_name_def thumbnail_name_def

subsection \<open>The text of a UUID determines it\<close>

lemma length_hex32: "length (hex32 u) = 32"
  by (simp add: hex32_def)

lemma length_uuid_str: "length (uuid_str u) = 36"
  by (simp add: uuid_str_def Let_def length_hex32)

lemma distinct_hex: "distinct ''0123456789abcdef''"
  by simp

lemma hex_digit_inj: "m < 16 \<Longrightarrow> n < 16 \<Longrightarrow> hex_digit m = hex_digit n \<Longrightarrow> m = n"
  unfolding hex_digit_def
  using nth_eq_iff_index_eq [OF distinct_hex, of m n] by simp

lemma nibble_less: "unat ((x :: 128 word) AND 15) < 16"
proof -
  have "(15 :: 128 word) = mask 4"
    by (simp add: mask_eq_exp_minus_1)
  then have "x AND 15 = take_bit 4 x"
    by (simp add: take_bit_eq_mask)
  then have "unat (x AND 15) = take_bit 4 (unat x)"
    by (simp add: unsigned_take_bit_eq)
  also have "\<dots> < 2 ^ 4"
    by (rule take_bit_nat_less_exp)
  finally show ?thesis by simp
qed

lemma hex32_nth: "i < 32 \<Longrightarrow> hex32 u ! i = hex_digit (unat (drop_bit (4 * (31 - i)) u AND 15))"
  by (simp add: hex32_def)

lemma hex32_inj:
  assumes "hex32 u = hex32 v"
  shows "u = v"
proof (rule bit_word_eqI)
  fix n assume n: "n < LENGTH(128)"
  define k where "k = n div 4"
  define r where "r = n mod 4"
  have k: "k < 32" and r: "r < 4" and nk: "n = 4 * k + r"
    using n by (auto simp: k_def r_def)
  define i where "i = 31 - k"
  have i: "i < 32" "31 - i = k" using k by (auto simp: i_def)
  have "hex32 u ! i = hex32 v ! i" using assms by simp
  then have "unat (drop_bit (4 * k) u AND 15) = unat (drop_bit (4 * k) v AND 15)"
    using i hex_digit_inj [OF nibble_less nibble_less] by (simp add: hex32_nth)
  then have eq: "drop_bit (4 * k) u AND 15 = drop_bit (4 * k) v AND (15 :: 128 word)"
    by (simp add: word_unat_eq_iff)
  have m: "(15 :: 128 word) = mask 4"
    by (simp add: mask_eq_exp_minus_1)
  have "bit (drop_bit (4 * k) u AND 15) r = bit (drop_bit (4 * k) v AND 15) r"
    using eq by simp
  then show "bit u n = bit v n"
    using r by (simp add: m bit_and_iff bit_mask_iff bit_drop_bit_eq nk)
qed


lemma hex_digit_mem: "n < 16 \<Longrightarrow> hex_digit n \<in> set ''0123456789abcdef''"
  unfolding hex_digit_def by (rule nth_mem) simp

lemma uuid_str_inj:
  assumes "uuid_str u = uuid_str v"
  shows "u = v"
proof -
  define a where "a = hex32 u"
  define b where "b = hex32 v"
  have la: "length a = 32" and lb: "length b = 32"
    by (simp_all add: a_def b_def length_hex32)
  from assms have parts: "take 8 a = take 8 b" "take 4 (drop 8 a) = take 4 (drop 8 b)"
    "take 4 (drop 12 a) = take 4 (drop 12 b)" "take 4 (drop 16 a) = take 4 (drop 16 b)"
    "drop 20 a = drop 20 b"
    by (simp_all add: uuid_str_def Let_def a_def [symmetric] b_def [symmetric] la lb)
  have split: "xs = take 8 xs @ take 4 (drop 8 xs) @ take 4 (drop 12 xs) @
      take 4 (drop 16 xs) @ drop 20 xs" for xs :: string
  proof -
    have "drop 16 xs = take 4 (drop 16 xs) @ drop 20 xs"
      using append_take_drop_id [of 4 "drop 16 xs"] by simp
    moreover have "drop 12 xs = take 4 (drop 12 xs) @ drop 16 xs"
      using append_take_drop_id [of 4 "drop 12 xs"] by simp
    moreover have "drop 8 xs = take 4 (drop 8 xs) @ drop 12 xs"
      using append_take_drop_id [of 4 "drop 8 xs"] by simp
    moreover have "xs = take 8 xs @ drop 8 xs"
      by simp
    ultimately show ?thesis by metis
  qed
  have "a = b"
    using split [of a] split [of b] parts by simp
  then show ?thesis
    unfolding a_def b_def by (rule hex32_inj)
qed

lemma uuid_str_head: "\<exists>c cs. uuid_str u = c # cs \<and> c \<in> set ''0123456789abcdef''"
proof -
  have "hex32 u \<noteq> []" using length_hex32 [of u] by auto
  then obtain c cs where h: "hex32 u = c # cs" by (cases "hex32 u") auto
  have "c = hex32 u ! 0" using h by simp
  then have "c = hex_digit (unat (drop_bit (4 * 31) u AND 15))"
    by (simp add: hex32_nth)
  then have "c \<in> set ''0123456789abcdef''"
    using hex_digit_mem [OF nibble_less] by simp
  then show ?thesis
    by (simp add: uuid_str_def Let_def h)
qed


subsection \<open>Two runs with different UUIDs use four different names\<close>

lemma hex_not_t: "c \<in> set ''0123456789abcdef'' \<Longrightarrow> c \<noteq> CHR ''t''"
  by auto

lemma names_distinct:
  assumes "u1 \<noteq> u2"
  shows "distinct [uuid_str u1 @ ''_'' @ f1, ''thumb_'' @ uuid_str u1 @ ''_'' @ f1,
                   uuid_str u2 @ ''_'' @ f2, ''thumb_'' @ uuid_str u2 @ ''_'' @ f2]"
proof -
  have ne: "uuid_str u1 @ x \<noteq> uuid_str u2 @ y" for x y
  proof
    assume "uuid_str u1 @ x = uuid_str u2 @ y"
    then have "uuid_str u1 = uuid_str u2"
      by (simp add: length_uuid_str)
    then show False using assms uuid_str_inj by blast
  qed
  have nt: "uuid_str u @ x \<noteq> ''thumb_'' @ y" for u x y
  proof -
    obtain c cs where "uuid_str u = c # cs" and "c \<in> set ''0123456789abcdef''"
      using uuid_str_head by blast
    then show ?thesis using hex_not_t [of c] by auto
  qed
  show ?thesis
    using ne [of "''_'' @ f1" "''_'' @ f2"] nt [of u1 "''_'' @ f1"] nt [of u1 "''_'' @ f1" "uuid_str u2 @ ''_'' @ f2"]
      nt [of u2 "''_'' @ f2" "uuid_str u1 @ ''_'' @ f1"] nt [of u2 "''_'' @ f2" "uuid_str u2 @ ''_'' @ f2"]
      nt [of u1 "''_'' @ f1" "uuid_str u1 @ ''_'' @ f1"]
    by auto
qed

subsection \<open>Runs that succeed, runs that fail after decoding\<close>

lemma success_inversion:
  assumes "status_code (fst (main w req)) = 200"
  shows "\<exists>file thumb_buffer.
      uploaded_file req = Some file
    \<and> snd (main w req) =
        [(OpenImage, True), (MakeThumbnail, True), (SaveImage, True),
         (ReadEnviron, True), (Connect, True),
         (Upload ''originalimages'' (original_name w file) (content file), True),
         (Upload ''thumbnails'' (thumbnail_name w file) thumb_buffer, True)]"
  using assms
  by (auto simp: run_defs split: sum.splits option.splits if_splits)

lemma step_after_decoding_fails_iff:
  "step_after_decoding_fails w file img \<longleftrightarrow>
     \<not> (\<exists>thumb thumb_buffer conn_str client.
           Image_thumbnail w img (128, 128) = Inr thumb
         \<and> Image_save w thumb ''JPEG'' = Inr thumb_buffer
         \<and> environ w ''AzureWebJobsStorage'' = Some conn_str
         \<and> from_connection_string w conn_str = Inr client
         \<and> upload_blob w client ''originalimages'' (original_name w file) (content file) = Inr ()
         \<and> upload_blob w client ''thumbnails'' (thumbnail_name w file) thumb_buffer = Inr ())"
  by (auto simp: step_after_decoding_fails_def split: sum.splits option.splits)

lemma failure_after_decoding:
  assumes "uploaded_file req = Some file" and "file_bool w file"
    and "Image_open w (content file) = Inr img"
    and "step_after_decoding_fails w file img"
  shows "fst (main w req) = error_processing_image"
proof -
  have "\<not> (\<exists>thumb thumb_buffer conn_str client.
           Image_thumbnail w img (128, 128) = Inr thumb
         \<and> Image_save w thumb ''JPEG'' = Inr thumb_buffer
         \<and> environ w ''AzureWebJobsStorage'' = Some conn_str
         \<and> from_connection_string w conn_str = Inr client
         \<and> upload_blob w client ''originalimages'' (original_name w file) (content file) = Inr ()
         \<and> upload_blob w client ''thumbnails'' (thumbnail_name w file) thumb_buffer = Inr ())"
    using assms(4) by (rule step_after_decoding_fails_iff [THEN iffD1])
  then show ?thesis
    using assms(1-3)
    by (auto simp: run_defs split: sum.splits option.splits)
qed

lemma error_kind_response:
  assumes k: "error_kind w req = Some k"
  shows "fst (main w req) =
           (if k = MissingFile
            then \<lparr>body = Text ''No file uploaded'', status_code = 400, mimetype = None\<rparr>
            else error_processing_image)"
proof (cases "files req")
  case (Inl e)
  then show ?thesis using k by (simp add: error_kind_def)
next
  case fs: (Inr fs)
  show ?thesis
  proof (cases "map_of fs ''file''")
    case None
    then show ?thesis using k fs by (auto simp: error_kind_def main_def)
  next
    case (Some f)
    show ?thesis
    proof (cases "file_bool w f")
      case False
      then show ?thesis using k fs Some by (auto simp: error_kind_def main_def)
    next
      case True
      have uf: "uploaded_file req = Some f"
        using fs Some by (simp add: uploaded_file_def)
      show ?thesis
      proof (cases "Image_open w (content f)")
        case (Inl e)
        then show ?thesis
          using k fs Some True
          by (auto simp: error_kind_def main_def attempt_def)
      next
        case (Inr img)
        then have "step_after_decoding_fails w f img" and "k = ProcessingFailure"
          using k fs Some True by (auto simp: error_kind_def split: if_split_asm)
        then show ?thesis
          using failure_after_decoding [OF uf True Inr] by simp
      qed
    qed
  qed
qed

subsection \<open>The side that follows the box\<close>

lemma scaled_side:
  fixes a b :: nat
  assumes a: "0 < a" and ab: "a \<le> b" and b: "128 < b"
    and r: "r = max ((128 * a) div b) 1
          \<or> r = max (if b dvd 128 * a then (128 * a) div b else (128 * a) div b + 1) 1"
  shows "0 < r \<and> r \<le> 128 \<and> r \<le> a \<and> \<bar>int r * int b - 128 * int a\<bar> < int b"
proof -
  define q where "q = (128 * a) div b"
  define m where "m = (128 * a) mod b"
  have split: "128 * a = q * b + m" and m: "m < b"
    using b by (simp_all add: q_def m_def)
  have dvd: "b dvd 128 * a \<longleftrightarrow> m = 0"
    by (simp add: m_def dvd_eq_mod_eq_0)
  have q128: "q \<le> 128"
  proof -
    have "(128 * a) div b \<le> (128 * b) div b"
      using ab by (intro div_le_mono) simp
    then show ?thesis using b by (simp add: q_def)
  qed
  have qa: "q < a"
  proof -
    have "128 * a < a * b" using a b by simp
    then show ?thesis unfolding q_def by (rule less_mult_imp_div_less)
  qed
  have q128': "q < 128" if "m \<noteq> 0"
  proof (rule ccontr)
    assume "\<not> q < 128"
    then have "q = 128" using q128 by simp
    then have "128 * a = 128 * b + m" using split by simp
    then show False using ab that by simp
  qed
  have isplit: "128 * int a = int q * int b + int m"
    using split by (metis of_nat_add of_nat_mult of_nat_numeral)
  consider (f) "r = max q 1" | (c) "m \<noteq> 0" "r = q + 1"
    using r dvd by (auto simp: q_def split: if_splits)
  then show ?thesis
  proof cases
    case f
    show ?thesis
    proof (cases "q = 0")
      case True
      then have "r = 1" using f by simp
      moreover have "128 * int a = int m" using isplit True by simp
      ultimately show ?thesis using a m by simp
    next
      case False
      then have "r = q" using f by simp
      then show ?thesis using False q128 qa isplit m by simp
    qed
  next
    case c
    have "int r * int b = int q * int b + int b"
      using c by (simp add: algebra_simps)
    then have "\<bar>int r * int b - 128 * int a\<bar> < int b"
      using isplit m c(1) by simp
    then show ?thesis using c q128' qa by simp
  qed
qed

lemma max_if_cases:
  "max (if P then a else b) (1 :: nat) = max a 1 \<or> max (if P then a else b) 1 = max b 1"
  by simp

subsection \<open>A JPEG writer that raises\<close>

lemma save_failure_stores_nothing:
  assumes "uploaded_file req = Some file" and "file_bool w file"
    and "Image_open w (content file) = Inr img"
    and "Image_thumbnail w img (128, 128) = Inr thumb"
    and "Image_save w thumb ''JPEG'' = Inl e"
  shows "main w req =
     (error_processing_image, [(OpenImage, True), (MakeThumbnail, True), (SaveImage, False)])"
  using assms by (auto simp: run_defs split: sum.splits)

section \<open>The successful run\<close>

text \<open>
  C1, as stated, fails: a request that carries a decodable image, run where the
  variable \<^verbatim>\<open>AzureWebJobsStorage\<close> is not set, is answered with 500 and writes nothing.
\<close>

theorem valid_image_no_credential_counterexample:
  "uploaded_file photo_request = Some photo
   \<and> file_bool no_credential_world photo
   \<and> Image_open no_credential_world (content photo) = Inr jpeg_bytes
   \<and> \<not> (status_code (fst (main no_credential_world photo_request)) = 200
        \<and> length (writes (snd (main no_credential_world photo_request))) = 2)"
  by (simp add: demo_defs run_defs)

text \<open>
  C1, amended. When the \<^verbatim>\<open>file\<close> part passes the check of step 1 and every call of the
  second \<^verbatim>\<open>try\<close> block returns (decoding, thumbnail, JPEG encoding, reading the
  credential, building the client and both uploads), the run makes exactly two uploads,
  both successful: the original bytes to \<^verbatim>\<open>originalimages\<close>, then the encoded thumbnail
  to \<^verbatim>\<open>thumbnails\<close>. The response has status 200 and a JSON body with exactly the fields
  \<^verbatim>\<open>original_url\<close> and \<^verbatim>\<open>thumbnail_url\<close>, the URLs of the two blobs written.
\<close>

theorem success_two_writes_200:
  assumes "uploaded_file req = Some file" and "file_bool w file"
    and "Image_open w (content file) = Inr img"
    and "Image_thumbnail w img (128, 128) = Inr thumb"
    and "Image_save w thumb ''JPEG'' = Inr thumb_buffer"
    and "environ w ''AzureWebJobsStorage'' = Some conn_str"
    and "from_connection_string w conn_str = Inr client"
    and "upload_blob w client ''originalimages'' (original_name w file) (content file) = Inr ()"
    and "upload_blob w client ''thumbnails'' (thumbnail_name w file) thumb_buffer = Inr ()"
  shows "uploads (snd (main w req)) =
           [(Upload ''originalimages'' (original_name w file) (content file), True),
            (Upload ''thumbnails'' (thumbnail_name w file) thumb_buffer, True)]
       \<and> writes (snd (main w req)) =
           [(''originalimages'', original_name w file, content file),
            (''thumbnails'', thumbnail_name w file, thumb_buffer)]
       \<and> fst (main w req) =
           \<lparr>body = Json [(''original_url'', blob_url w client ''originalimages'' (original_name w file)),
                         (''thumbnail_url'', blob_url w client ''thumbnails'' (thumbnail_name w file))],
            status_code = 200, mimetype = Some ''application/json''\<rparr>"
  using assms by (auto simp: run_defs split: sum.splits)

theorem success_two_writes_200_witness:
  "uploaded_file photo_request = Some photo \<and> file_bool demo_world photo
   \<and> Image_open demo_world (content photo) = Inr jpeg_bytes
   \<and> Image_thumbnail demo_world jpeg_bytes (128, 128) = Inr jpeg_bytes
   \<and> Image_save demo_world jpeg_bytes ''JPEG'' = Inr (jpeg_bytes @ [0])
   \<and> environ demo_world ''AzureWebJobsStorage'' = Some ''UseDevelopmentStorage=true''
   \<and> from_connection_string demo_world ''UseDevelopmentStorage=true'' = Inr ''UseDevelopmentStorage=true''
   \<and> writes (snd (main demo_world photo_request)) =
           [(''originalimages'', original_name demo_world photo, content photo),
            (''thumbnails'', thumbnail_name demo_world photo, jpeg_bytes @ [0])]
   \<and> status_code (fst (main demo_world photo_request)) = 200
   \<and> body (fst (main demo_world photo_request)) =
        Json [(''original_url'', blob_url demo_world ''UseDevelopmentStorage=true'' ''originalimages'' (original_name demo_world photo)),
              (''thumbnail_url'', blob_url demo_world ''UseDevelopmentStorage=true'' ''thumbnails'' (thumbnail_name demo_world photo))]"
proof -
  have 1: "uploaded_file photo_request = Some photo"
    by (simp add: uploaded_file_def photo_request_def)
  have 2: "file_bool demo_world photo"
    by (simp add: demo_world_def photo_def)
  have 3: "Image_open demo_world (content photo) = Inr jpeg_bytes"
    by (simp add: demo_world_def photo_def jpeg_bytes_def)
  have 4: "Image_thumbnail demo_world jpeg_bytes (128, 128) = Inr jpeg_bytes"
    by (simp add: demo_world_def)
  have 5: "Image_save demo_world jpeg_bytes ''JPEG'' = Inr (jpeg_bytes @ [0])"
    by (simp add: demo_world_def)
  have 6: "environ demo_world ''AzureWebJobsStorage'' = Some ''UseDevelopmentStorage=true''"
    by (simp add: demo_world_def)
  have 7: "from_connection_string demo_world ''UseDevelopmentStorage=true'' = Inr ''UseDevelopmentStorage=true''"
    by (simp add: demo_world_def)
  have 8: "upload_blob demo_world ''UseDevelopmentStorage=true'' ''originalimages''
             (original_name demo_world photo) (content photo) = Inr ()"
    by (simp add: demo_world_def)
  have 9: "upload_blob demo_world ''UseDevelopmentStorage=true'' ''thumbnails''
             (thumbnail_name demo_world photo) (jpeg_bytes @ [0]) = Inr ()"
    by (simp add: demo_world_def)
  note r = success_two_writes_200 [OF 1 2 3 4 5 6 7 8 9]
  have s: "status_code (fst (main demo_world photo_request)) = 200"
    and b: "body (fst (main demo_world photo_request)) =
        Json [(''original_url'', blob_url demo_world ''UseDevelopmentStorage=true'' ''originalimages'' (original_name demo_world photo)),
              (''thumbnail_url'', blob_url demo_world ''UseDevelopmentStorage=true'' ''thumbnails'' (thumbnail_name demo_world photo))]"
    using r by simp_all
  show ?thesis
    using 1 2 3 4 5 6 7 r s b by blast
qed

section \<open>The size of the thumbnail\<close>

text \<open>
  C2. For an image of width \<open>w\<close> and height \<open>h\<close>, both positive, the thumbnail in the box
  (128, 128) that \<open>main\<close> asks for has no side longer than 128; its sides are in the
  proportion of \<open>w\<close> to \<open>h\<close> up to less than one pixel on the side that follows; and
  no side grows: an image with both sides at most 128 keeps its size.
\<close>

theorem thumbnail_size_bounds:
  assumes "0 < w" and "0 < h"
    and "thumbnail_size (128, 128) (w, h) = (w', h')"
  shows "max w' h' \<le> 128
       \<and> \<bar>int w' * int h - int h' * int w\<bar> < int (max w h)
       \<and> (w \<le> 128 \<and> h \<le> 128 \<longrightarrow> w' = w \<and> h' = h)
       \<and> 0 < w' \<and> w' \<le> w \<and> 0 < h' \<and> h' \<le> h"
proof (cases "w \<le> 128 \<and> h \<le> 128")
  case True
  then have "w' = w" "h' = h"
    using assms(3) by (simp_all add: thumbnail_size_def)
  then show ?thesis using True assms(1,2) by (simp add: max_def)
next
  case big: False
  show ?thesis
  proof (cases "w \<le> h")
    case True
    then have h128: "128 < h" using big by arith
    have w': "w' = fit_width 128 w h" and h': "h' = 128"
      using assms(3) big True by (simp_all add: thumbnail_size_def)
    have "w' = max ((128 * w) div h) 1
        \<or> w' = max (if h dvd 128 * w then (128 * w) div h else (128 * w) div h + 1) 1"
      unfolding w' fit_width_def Let_def by (rule max_if_cases)
    from scaled_side [OF assms(1) True h128 this]
    have "0 < w'" "w' \<le> 128" "w' \<le> w" "\<bar>int w' * int h - 128 * int w\<bar> < int h"
      by simp_all
    then show ?thesis using h' h128 True big by (simp add: max_def)
  next
    case False
    then have hw: "h \<le> w" and w128: "128 < w" using big by arith+
    have w': "w' = 128" and h': "h' = fit_height 128 w h"
      using assms(3) big False by (simp_all add: thumbnail_size_def)
    have "h' = max ((128 * h) div w) 1
        \<or> h' = max (if w dvd 128 * h then (128 * h) div w else (128 * h) div w + 1) 1"
      unfolding h' fit_height_def Let_def by (rule max_if_cases)
    from scaled_side [OF assms(2) hw w128 this]
    have "0 < h'" "h' \<le> 128" "h' \<le> h" "\<bar>int h' * int w - 128 * int h\<bar> < int w"
      by simp_all
    then show ?thesis using w' w128 False big by (simp add: max_def abs_minus_commute)
  qed
qed

theorem thumbnail_size_bounds_witness:
  "thumbnail_size (128, 128) (1000, 500) = (128, 64)
   \<and> thumbnail_size (128, 128) (100, 50) = (100, 50)
   \<and> max (128 :: nat) 64 \<le> 128
   \<and> \<bar>int 128 * int 500 - int 64 * int 1000\<bar> < int (max 1000 500)
   \<and> \<bar>int 100 * int 50 - int 50 * int 100\<bar> < int (max 100 50)"
proof -
  have a: "thumbnail_size (128, 128) (1000, 500) = (128, 64)"
    by (simp add: thumbnail_size_def fit_height_def Let_def)
  have b: "thumbnail_size (128, 128) (100, 50) = (100, 50)"
    by (simp add: thumbnail_size_def)
  have p: "(0 :: nat) < 1000" "(0 :: nat) < 500" "(0 :: nat) < 100" "(0 :: nat) < 50"
    by simp_all
  show ?thesis
    using a b thumbnail_size_bounds [OF p(1) p(2) a] thumbnail_size_bounds [OF p(3) p(4) b]
    by simp
qed

section \<open>Blob names\<close>

text \<open>
  C3. In a run answered with 200 the original is written under the text of the UUID, an
  underscore and the uploaded filename, and the thumbnail under \<^verbatim>\<open>thumb_\<close> followed by
  that name. For two such runs whose UUIDs differ (the requests may be the same), the
  four names are pairwise distinct, and after both runs the store still holds what the
  first run wrote under its two names.
\<close>

theorem blob_names_never_collide:
  assumes "status_code (fst (main w1 req1)) = 200"
    and "status_code (fst (main w2 req2)) = 200"
    and "uuid4 w1 \<noteq> uuid4 w2"
  shows "\<exists>f1 f2 t1 t2.
      uploaded_file req1 = Some f1 \<and> uploaded_file req2 = Some f2
    \<and> writes (snd (main w1 req1)) =
        [(''originalimages'', uuid_str (uuid4 w1) @ ''_'' @ filename f1, content f1),
         (''thumbnails'', ''thumb_'' @ uuid_str (uuid4 w1) @ ''_'' @ filename f1, t1)]
    \<and> writes (snd (main w2 req2)) =
        [(''originalimages'', uuid_str (uuid4 w2) @ ''_'' @ filename f2, content f2),
         (''thumbnails'', ''thumb_'' @ uuid_str (uuid4 w2) @ ''_'' @ filename f2, t2)]
    \<and> distinct [uuid_str (uuid4 w1) @ ''_'' @ filename f1,
                 ''thumb_'' @ uuid_str (uuid4 w1) @ ''_'' @ filename f1,
                 uuid_str (uuid4 w2) @ ''_'' @ filename f2,
                 ''thumb_'' @ uuid_str (uuid4 w2) @ ''_'' @ filename f2]
    \<and> (\<forall>s. put_all (put_all s (writes (snd (main w1 req1)))) (writes (snd (main w2 req2)))
               (''originalimages'', uuid_str (uuid4 w1) @ ''_'' @ filename f1) = Some (content f1)
           \<and> put_all (put_all s (writes (snd (main w1 req1)))) (writes (snd (main w2 req2)))
               (''thumbnails'', ''thumb_'' @ uuid_str (uuid4 w1) @ ''_'' @ filename f1) = Some t1)"
proof -
  obtain f1 t1 where f1: "uploaded_file req1 = Some f1"
    and tr1: "snd (main w1 req1) =
        [(OpenImage, True), (MakeThumbnail, True), (SaveImage, True),
         (ReadEnviron, True), (Connect, True),
         (Upload ''originalimages'' (original_name w1 f1) (content f1), True),
         (Upload ''thumbnails'' (thumbnail_name w1 f1) t1, True)]"
    using success_inversion [OF assms(1)] by blast
  obtain f2 t2 where f2: "uploaded_file req2 = Some f2"
    and tr2: "snd (main w2 req2) =
        [(OpenImage, True), (MakeThumbnail, True), (SaveImage, True),
         (ReadEnviron, True), (Connect, True),
         (Upload ''originalimages'' (original_name w2 f2) (content f2), True),
         (Upload ''thumbnails'' (thumbnail_name w2 f2) t2, True)]"
    using success_inversion [OF assms(2)] by blast
  note d = names_distinct [OF assms(3), of "filename f1" "filename f2"]
  have w1: "writes (snd (main w1 req1)) =
        [(''originalimages'', uuid_str (uuid4 w1) @ ''_'' @ filename f1, content f1),
         (''thumbnails'', ''thumb_'' @ uuid_str (uuid4 w1) @ ''_'' @ filename f1, t1)]"
    by (simp add: tr1 original_name_def thumbnail_name_def)
  have w2: "writes (snd (main w2 req2)) =
        [(''originalimages'', uuid_str (uuid4 w2) @ ''_'' @ filename f2, content f2),
         (''thumbnails'', ''thumb_'' @ uuid_str (uuid4 w2) @ ''_'' @ filename f2, t2)]"
    by (simp add: tr2 original_name_def thumbnail_name_def)
  have keep: "put_all (put_all s (writes (snd (main w1 req1)))) (writes (snd (main w2 req2)))
               (''originalimages'', uuid_str (uuid4 w1) @ ''_'' @ filename f1) = Some (content f1)
           \<and> put_all (put_all s (writes (snd (main w1 req1)))) (writes (snd (main w2 req2)))
               (''thumbnails'', ''thumb_'' @ uuid_str (uuid4 w1) @ ''_'' @ filename f1) = Some t1" for s
    unfolding w1 w2 using d by simp
  show ?thesis
    using f1 f2 w1 w2 d keep by blast
qed

theorem blob_names_never_collide_witness:
  "status_code (fst (main demo_world photo_request)) = 200
   \<and> status_code (fst (main second_world photo_request)) = 200
   \<and> uuid4 demo_world \<noteq> uuid4 second_world
   \<and> (\<exists>f1 f2 t1 t2.
      uploaded_file photo_request = Some f1 \<and> uploaded_file photo_request = Some f2
    \<and> writes (snd (main demo_world photo_request)) =
        [(''originalimages'', uuid_str (uuid4 demo_world) @ ''_'' @ filename f1, content f1),
         (''thumbnails'', ''thumb_'' @ uuid_str (uuid4 demo_world) @ ''_'' @ filename f1, t1)]
    \<and> writes (snd (main second_world photo_request)) =
        [(''originalimages'', uuid_str (uuid4 second_world) @ ''_'' @ filename f2, content f2),
         (''thumbnails'', ''thumb_'' @ uuid_str (uuid4 second_world) @ ''_'' @ filename f2, t2)]
    \<and> distinct [uuid_str (uuid4 demo_world) @ ''_'' @ filename f1,
                 ''thumb_'' @ uuid_str (uuid4 demo_world) @ ''_'' @ filename f1,
                 uuid_str (uuid4 second_world) @ ''_'' @ filename f2,
                 ''thumb_'' @ uuid_str (uuid4 second_world) @ ''_'' @ filename f2]
    \<and> (\<forall>s. put_all (put_all s (writes (snd (main demo_world photo_request))))
                 (writes (snd (main second_world photo_request)))
               (''originalimages'', uuid_str (uuid4 demo_world) @ ''_'' @ filename f1) = Some (content f1)
           \<and> put_all (put_all s (writes (snd (main demo_world photo_request))))
                 (writes (snd (main second_world photo_request)))
               (''thumbnails'', ''thumb_'' @ uuid_str (uuid4 demo_world) @ ''_'' @ filename f1) = Some t1))"
proof -
  have a: "status_code (fst (main demo_world photo_request)) = 200"
    by (simp add: demo_defs run_defs)
  have b: "status_code (fst (main second_world photo_request)) = 200"
    by (simp add: demo_defs run_defs)
  have c: "uuid4 demo_world \<noteq> uuid4 second_world"
    by (simp add: second_world_def demo_world_def)
  show ?thesis
    using a b c blob_names_never_collide [OF a b c] by blast
qed

section \<open>No file\<close>

text \<open>
  C4, as stated, fails for empty content: a \<^verbatim>\<open>file\<close> part with a filename and no bytes
  passes the check of step 1, decoding is attempted and raises, and the answer is 500.
\<close>

theorem empty_content_not_400_counterexample:
  "uploaded_file empty_file_request = Some empty_file
   \<and> content empty_file = []
   \<and> status_code (fst (main demo_world empty_file_request)) = 500
   \<and> snd (main demo_world empty_file_request) = [(OpenImage, False)]"
  by (simp add: demo_defs run_defs)

text \<open>
  C4, amended. When the request has no \<^verbatim>\<open>file\<close> part, or has one whose truth value is
  false, the response is 400 with the text \<^verbatim>\<open>No file uploaded\<close>, and no library call
  of the second \<^verbatim>\<open>try\<close> block is made: nothing is decoded and nothing is written.
\<close>

theorem missing_file_400:
  assumes "files req = Inr fs"
    and "map_of fs ''file'' = None \<or> (\<exists>file. map_of fs ''file'' = Some file \<and> \<not> file_bool w file)"
  shows "fst (main w req) = \<lparr>body = Text ''No file uploaded'', status_code = 400, mimetype = None\<rparr>
       \<and> snd (main w req) = []
       \<and> writes (snd (main w req)) = []"
  using assms by (auto simp: main_def)

theorem missing_file_400_witness:
  "files no_file_request = Inr []
   \<and> map_of ([] :: (string \<times> file_storage) list) ''file'' = None
   \<and> status_code (fst (main demo_world no_file_request)) = 400
   \<and> snd (main demo_world no_file_request) = []
   \<and> writes (snd (main demo_world no_file_request)) = []"
proof -
  have f: "files no_file_request = Inr []"
    by (simp add: no_file_request_def)
  have m: "map_of ([] :: (string \<times> file_storage) list) ''file'' = None
     \<or> (\<exists>file. map_of ([] :: (string \<times> file_storage) list) ''file'' = Some file \<and> \<not> file_bool demo_world file)"
    by simp
  note r = missing_file_400 [OF f m]
  have "status_code (fst (main demo_world no_file_request)) = 400"
    using r by simp
  then show ?thesis using f r by simp
qed

section \<open>Undecodable content\<close>

text \<open>
  C5, as stated, fails: a \<^verbatim>\<open>file\<close> part that is present, with bytes that are not empty
  and cannot be decoded, but with an empty filename, does not pass the check of step 1.
  It is answered with 400, and decoding is not attempted.
\<close>

theorem undecodable_unnamed_part_400_counterexample:
  "uploaded_file unnamed_garbage_request = Some unnamed_garbage_file
   \<and> content unnamed_garbage_file \<noteq> []
   \<and> Image_open demo_world (content unnamed_garbage_file) = Inl (Raised ''UnidentifiedImageError'')
   \<and> status_code (fst (main demo_world unnamed_garbage_request)) = 400
   \<and> snd (main demo_world unnamed_garbage_request) = []"
  by (simp add: demo_defs run_defs)

text \<open>
  C5, amended. When the request has a \<^verbatim>\<open>file\<close> part that passes the check of step 1
  (its truth value is true) and \<^verbatim>\<open>Image.open\<close> raises on its bytes, the response is the
  500 of the handler, the only call made is the failed decoding, no upload is attempted
  and nothing is written.
\<close>

theorem decode_failure_500:
  assumes "uploaded_file req = Some file" and "file_bool w file"
    and "Image_open w (content file) = Inl e"
  shows "fst (main w req) = error_processing_image
       \<and> status_code (fst (main w req)) = 500
       \<and> snd (main w req) = [(OpenImage, False)]
       \<and> uploads (snd (main w req)) = []
       \<and> writes (snd (main w req)) = []"
  using assms by (auto simp: run_defs split: sum.splits)

theorem decode_failure_500_witness:
  "uploaded_file garbage_request = Some garbage_file
   \<and> file_bool demo_world garbage_file
   \<and> Image_open demo_world (content garbage_file) = Inl (Raised ''UnidentifiedImageError'')
   \<and> fst (main demo_world garbage_request) = error_processing_image
   \<and> status_code (fst (main demo_world garbage_request)) = 500
   \<and> snd (main demo_world garbage_request) = [(OpenImage, False)]
   \<and> uploads (snd (main demo_world garbage_request)) = []
   \<and> writes (snd (main demo_world garbage_request)) = []"
proof -
  have f: "uploaded_file garbage_request = Some garbage_file"
    by (simp add: uploaded_file_def garbage_request_def)
  have b: "file_bool demo_world garbage_file"
    by (simp add: demo_world_def garbage_file_def)
  have d: "Image_open demo_world (content garbage_file) = Inl (Raised ''UnidentifiedImageError'')"
    by (simp add: demo_world_def garbage_file_def)
  show ?thesis
    using f b d decode_failure_500 [OF f b d] by blast
qed

section \<open>The stored thumbnail\<close>

text \<open>
  C6 says that every decodable image, whatever its format, is encoded as JPEG and stored.
  Line 55 hands the thumbnail to \<^verbatim>\<open>save\<close> with the format \<^verbatim>\<open>JPEG\<close> in the mode in which
  it was decoded, and nothing converts the mode. Where the JPEG writer refuses the mode,
  as it does for the RGBA image of a PNG file with transparency, the call raises: the
  run ends after three calls with the 500 of the handler, and neither the original nor
  a thumbnail is written.
\<close>

theorem rgba_png_is_not_stored:
  "uploaded_file png_request = Some png_file
   \<and> file_bool rgba_world png_file
   \<and> Image_open rgba_world (content png_file) = Inr (''RGBA'', png_bytes)
   \<and> main rgba_world png_request =
       (error_processing_image, [(OpenImage, True), (MakeThumbnail, True), (SaveImage, False)])
   \<and> status_code (fst (main rgba_world png_request)) = 500
   \<and> writes (snd (main rgba_world png_request)) = []"
  by (simp add: demo_defs run_defs)

section \<open>Status codes of the error kinds\<close>

text \<open>
  C7, as stated, fails: a run that fails in decoding and a run that fails at a later
  step are both answered with status 500.
\<close>

theorem decode_and_processing_same_status_counterexample:
  "error_kind demo_world garbage_request = Some DecodeFailure
   \<and> error_kind no_credential_world photo_request = Some ProcessingFailure
   \<and> status_code (fst (main demo_world garbage_request)) = 500
   \<and> status_code (fst (main no_credential_world photo_request)) = 500
   \<and> fst (main demo_world garbage_request) = fst (main no_credential_world photo_request)"
  by (simp add: demo_defs run_defs error_kind_def step_after_decoding_fails_def)

text \<open>
  C7, amended. MissingFile is answered with status 400, DecodeFailure and
  ProcessingFailure with status 500, each with a text body. So the status tells
  MissingFile from the other two kinds, and it does not tell DecodeFailure from
  ProcessingFailure: their responses are the same.
\<close>

theorem error_kind_status:
  assumes "error_kind w1 req1 = Some k1" and "error_kind w2 req2 = Some k2"
  shows "status_code (fst (main w1 req1)) = (if k1 = MissingFile then 400 else 500)
       \<and> status_code (fst (main w2 req2)) = (if k2 = MissingFile then 400 else 500)
       \<and> (\<exists>t1 t2. body (fst (main w1 req1)) = Text t1 \<and> body (fst (main w2 req2)) = Text t2)
       \<and> ((k1 = MissingFile) \<noteq> (k2 = MissingFile)
            \<longrightarrow> status_code (fst (main w1 req1)) \<noteq> status_code (fst (main w2 req2)))
       \<and> fst (main w1 req1) =
           (if k1 = MissingFile
            then \<lparr>body = Text ''No file uploaded'', status_code = 400, mimetype = None\<rparr>
            else error_processing_image)
       \<and> fst (main w2 req2) =
           (if k2 = MissingFile
            then \<lparr>body = Text ''No file uploaded'', status_code = 400, mimetype = None\<rparr>
            else error_processing_image)"
  using error_kind_response [OF assms(1)] error_kind_response [OF assms(2)]
  by (auto simp: error_processing_image_def)

theorem error_kind_status_witness:
  "error_kind demo_world no_file_request = Some MissingFile
   \<and> error_kind demo_world garbage_request = Some DecodeFailure
   \<and> status_code (fst (main demo_world no_file_request)) = 400
   \<and> status_code (fst (main demo_world garbage_request)) = 500
   \<and> status_code (fst (main demo_world no_file_request))
       \<noteq> status_code (fst (main demo_world garbage_request))"
proof -
  have a: "error_kind demo_world no_file_request = Some MissingFile"
    by (simp add: error_kind_def no_file_request_def)
  have b: "error_kind demo_world garbage_request = Some DecodeFailure"
    by (simp add: error_kind_def garbage_request_def garbage_file_def demo_world_def)
  show ?thesis
    using a b error_kind_status [OF a b] by (simp add: error_processing_image_def)
qed

section \<open>Failure after decoding\<close>

text \<open>
  C8. For a \<^verbatim>\<open>file\<close> part that passes the check of step 1 and is decoded: when any later
  call of the second \<^verbatim>\<open>try\<close> block raises, the response is the 500 of the handler. When
  it is the upload of the thumbnail that raises, after the upload of the original
  returned, the run consists of the seven calls up to that upload and no other, its only
  write is the original, and a store to which the writes of the run are applied holds
  the original bytes under the original's name.
\<close>

theorem processing_failure_500:
  assumes "uploaded_file req = Some file" and "file_bool w file"
    and "Image_open w (content file) = Inr img"
  shows "(step_after_decoding_fails w file img \<longrightarrow>
            fst (main w req) = error_processing_image
          \<and> status_code (fst (main w req)) = 500)
       \<and> (\<forall>thumb thumb_buffer conn_str client e.
              Image_thumbnail w img (128, 128) = Inr thumb
            \<and> Image_save w thumb ''JPEG'' = Inr thumb_buffer
            \<and> environ w ''AzureWebJobsStorage'' = Some conn_str
            \<and> from_connection_string w conn_str = Inr client
            \<and> upload_blob w client ''originalimages'' (original_name w file) (content file) = Inr ()
            \<and> upload_blob w client ''thumbnails'' (thumbnail_name w file) thumb_buffer = Inl e
            \<longrightarrow> status_code (fst (main w req)) = 500
              \<and> snd (main w req) =
                  [(OpenImage, True), (MakeThumbnail, True), (SaveImage, True),
                   (ReadEnviron, True), (Connect, True),
                   (Upload ''originalimages'' (original_name w file) (content file), True),
                   (Upload ''thumbnails'' (thumbnail_name w file) thumb_buffer, False)]
              \<and> writes (snd (main w req)) =
                  [(''originalimages'', original_name w file, content file)]
              \<and> (\<forall>s. put_all s (writes (snd (main w req)))
                          (''originalimages'', original_name w file) = Some (content file)))"
proof (intro conjI impI allI)
  assume "step_after_decoding_fails w file img"
  then show "fst (main w req) = error_processing_image"
    by (rule failure_after_decoding [OF assms])
  then show "status_code (fst (main w req)) = 500"
    by (simp add: error_processing_image_def)
next
  fix thumb thumb_buffer conn_str client e s
  assume h: "Image_thumbnail w img (128, 128) = Inr thumb
            \<and> Image_save w thumb ''JPEG'' = Inr thumb_buffer
            \<and> environ w ''AzureWebJobsStorage'' = Some conn_str
            \<and> from_connection_string w conn_str = Inr client
            \<and> upload_blob w client ''originalimages'' (original_name w file) (content file) = Inr ()
            \<and> upload_blob w client ''thumbnails'' (thumbnail_name w file) thumb_buffer = Inl e"
  have m: "main w req =
      (error_processing_image,
       [(OpenImage, True), (MakeThumbnail, True), (SaveImage, True),
        (ReadEnviron, True), (Connect, True),
        (Upload ''originalimages'' (original_name w file) (content file), True),
        (Upload ''thumbnails'' (thumbnail_name w file) thumb_buffer, False)])"
    using assms h by (auto simp: run_defs split: sum.splits)
  show "status_code (fst (main w req)) = 500"
    by (simp add: m error_processing_image_def)
  show "snd (main w req) =
      [(OpenImage, True), (MakeThumbnail, True), (SaveImage, True),
        (ReadEnviron, True), (Connect, True),
        (Upload ''originalimages'' (original_name w file) (content file), True),
        (Upload ''thumbnails'' (thumbnail_name w file) thumb_buffer, False)]"
    by (simp add: m)
  show "writes (snd (main w req)) = [(''originalimages'', original_name w file, content file)]"
    by (simp add: m)
  show "put_all s (writes (snd (main w req))) (''originalimages'', original_name w file)
      = Some (content file)"
    by (simp add: m)
qed

theorem processing_failure_500_witness:
  "uploaded_file photo_request = Some photo
   \<and> file_bool thumbnail_upload_fails_world photo
   \<and> Image_open thumbnail_upload_fails_world (content photo) = Inr jpeg_bytes
   \<and> step_after_decoding_fails thumbnail_upload_fails_world photo jpeg_bytes
   \<and> upload_blob thumbnail_upload_fails_world ''UseDevelopmentStorage=true'' ''originalimages''
        (original_name thumbnail_upload_fails_world photo) (content photo) = Inr ()
   \<and> upload_blob thumbnail_upload_fails_world ''UseDevelopmentStorage=true'' ''thumbnails''
        (thumbnail_name thumbnail_upload_fails_world photo) (jpeg_bytes @ [0])
        = Inl (Raised ''ServiceRequestError'')
   \<and> status_code (fst (main thumbnail_upload_fails_world photo_request)) = 500
   \<and> writes (snd (main thumbnail_upload_fails_world photo_request)) =
        [(''originalimages'', original_name thumbnail_upload_fails_world photo, content photo)]
   \<and> put_all Map.empty (writes (snd (main thumbnail_upload_fails_world photo_request)))
        (''originalimages'', original_name thumbnail_upload_fails_world photo) = Some (content photo)"
proof -
  let ?w = thumbnail_upload_fails_world
  have 1: "uploaded_file photo_request = Some photo"
    by (simp add: uploaded_file_def photo_request_def)
  have 2: "file_bool ?w photo"
    by (simp add: thumbnail_upload_fails_world_def demo_world_def photo_def)
  have 3: "Image_open ?w (content photo) = Inr jpeg_bytes"
    by (simp add: thumbnail_upload_fails_world_def demo_world_def photo_def jpeg_bytes_def)
  have 4: "Image_thumbnail ?w jpeg_bytes (128, 128) = Inr jpeg_bytes
      \<and> Image_save ?w jpeg_bytes ''JPEG'' = Inr (jpeg_bytes @ [0])
      \<and> environ ?w ''AzureWebJobsStorage'' = Some ''UseDevelopmentStorage=true''
      \<and> from_connection_string ?w ''UseDevelopmentStorage=true'' = Inr ''UseDevelopmentStorage=true''
      \<and> upload_blob ?w ''UseDevelopmentStorage=true'' ''originalimages''
           (original_name ?w photo) (content photo) = Inr ()
      \<and> upload_blob ?w ''UseDevelopmentStorage=true'' ''thumbnails''
           (thumbnail_name ?w photo) (jpeg_bytes @ [0]) = Inl (Raised ''ServiceRequestError'')"
    by (simp add: thumbnail_upload_fails_world_def demo_world_def)
  have 5: "step_after_decoding_fails ?w photo jpeg_bytes"
    using 4 by (simp add: step_after_decoding_fails_def)
  note r = processing_failure_500 [OF 1 2 3]
  from r 5 have a: "status_code (fst (main ?w photo_request)) = 500"
    by blast
  from r 4 have b: "writes (snd (main ?w photo_request)) =
        [(''originalimages'', original_name ?w photo, content photo)]"
    by blast
  from r 4 have c: "put_all Map.empty (writes (snd (main ?w photo_request)))
        (''originalimages'', original_name ?w photo) = Some (content photo)"
    by blast
  show ?thesis
    using 1 2 3 4 5 a b c by blast
qed

section \<open>Order of the two uploads\<close>

text \<open>
  C9. In every run, an upload to \<^verbatim>\<open>thumbnails\<close> (whether it returns or raises) is the
  second of exactly two uploads, the first being a successful upload to
  \<^verbatim>\<open>originalimages\<close> of the name without \<^verbatim>\<open>thumb_\<close>; so a thumbnail that is written has
  its original written before it. The converse fails: there is a run whose only write is
  the original.
\<close>

theorem thumbnail_only_after_original:
  "(\<forall>n d ok. (Upload ''thumbnails'' n d, ok) \<in> set (snd (main w req)) \<longrightarrow>
      (\<exists>n' d'. n = ''thumb_'' @ n'
         \<and> uploads (snd (main w req)) =
             [(Upload ''originalimages'' n' d', True), (Upload ''thumbnails'' n d, ok)]))
   \<and> (\<forall>n d. (''thumbnails'', n, d) \<in> set (writes (snd (main w req))) \<longrightarrow>
      (\<exists>n' d'. n = ''thumb_'' @ n'
         \<and> writes (snd (main w req)) = [(''originalimages'', n', d'), (''thumbnails'', n, d)]))
   \<and> writes (snd (main thumbnail_upload_fails_world photo_request)) =
        [(''originalimages'', original_name thumbnail_upload_fails_world photo, content photo)]"
proof (intro conjI allI impI)
  fix n d ok
  assume "(Upload ''thumbnails'' n d, ok) \<in> set (snd (main w req))"
  then show "\<exists>n' d'. n = ''thumb_'' @ n'
         \<and> uploads (snd (main w req)) =
             [(Upload ''originalimages'' n' d', True), (Upload ''thumbnails'' n d, ok)]"
    by (auto simp: run_defs split: sum.splits option.splits if_splits)
next
  fix n d
  assume "(''thumbnails'', n, d) \<in> set (writes (snd (main w req)))"
  then show "\<exists>n' d'. n = ''thumb_'' @ n'
         \<and> writes (snd (main w req)) = [(''originalimages'', n', d'), (''thumbnails'', n, d)]"
    by (auto simp: run_defs split: sum.splits option.splits if_splits)
next
  show "writes (snd (main thumbnail_upload_fails_world photo_request)) =
        [(''originalimages'', original_name thumbnail_upload_fails_world photo, content photo)]"
    by (simp add: demo_defs run_defs)
qed

theorem thumbnail_only_after_original_witness:
  "(Upload ''thumbnails'' (thumbnail_name demo_world photo) (jpeg_bytes @ [0]), True)
      \<in> set (snd (main demo_world photo_request))
   \<and> (''thumbnails'', thumbnail_name demo_world photo, jpeg_bytes @ [0])
      \<in> set (writes (snd (main demo_world photo_request)))
   \<and> (\<exists>n' d'. thumbnail_name demo_world photo = ''thumb_'' @ n'
         \<and> uploads (snd (main demo_world photo_request)) =
             [(Upload ''originalimages'' n' d', True),
              (Upload ''thumbnails'' (thumbnail_name demo_world photo) (jpeg_bytes @ [0]), True)])
   \<and> (\<exists>n' d'. thumbnail_name demo_world photo = ''thumb_'' @ n'
         \<and> writes (snd (main demo_world photo_request)) =
             [(''originalimages'', n', d'),
              (''thumbnails'', thumbnail_name demo_world photo, jpeg_bytes @ [0])])"
proof -
  have a: "(Upload ''thumbnails'' (thumbnail_name demo_world photo) (jpeg_bytes @ [0]), True)
      \<in> set (snd (main demo_world photo_request))"
    by (simp add: demo_defs run_defs)
  have b: "(''thumbnails'', thumbnail_name demo_world photo, jpeg_bytes @ [0])
      \<in> set (writes (snd (main demo_world photo_request)))"
    by (simp add: demo_defs run_defs)
  note r = thumbnail_only_after_original [of demo_world photo_request]
  show ?thesis
    using a b r by blast
qed

section \<open>The storage credential\<close>

text \<open>
  C10. In every run, reading \<^verbatim>\<open>AzureWebJobsStorage\<close> is the fourth call, after decoding,
  thumbnail and JPEG encoding have returned. When the variable is not set, or the client
  cannot be built from its value, the run attempts no upload, writes nothing and is not
  answered with 200; when the run gets as far as the JPEG encoding, the response is the
  500 of the handler.
\<close>

theorem credential_read_after_encoding:
  "(\<forall>ok. (ReadEnviron, ok) \<in> set (snd (main w req)) \<longrightarrow>
      take 4 (snd (main w req)) =
        [(OpenImage, True), (MakeThumbnail, True), (SaveImage, True), (ReadEnviron, ok)])
   \<and> (environ w ''AzureWebJobsStorage'' = None
        \<or> (\<exists>conn_str e. environ w ''AzureWebJobsStorage'' = Some conn_str
              \<and> from_connection_string w conn_str = Inl e)
      \<longrightarrow> uploads (snd (main w req)) = []
        \<and> writes (snd (main w req)) = []
        \<and> status_code (fst (main w req)) \<noteq> 200
        \<and> (\<forall>file img thumb thumb_buffer.
              uploaded_file req = Some file \<and> file_bool w file
            \<and> Image_open w (content file) = Inr img
            \<and> Image_thumbnail w img (128, 128) = Inr thumb
            \<and> Image_save w thumb ''JPEG'' = Inr thumb_buffer
            \<longrightarrow> fst (main w req) = error_processing_image
              \<and> status_code (fst (main w req)) = 500))"
proof (intro conjI allI impI)
  fix ok
  assume "(ReadEnviron, ok) \<in> set (snd (main w req))"
  then show "take 4 (snd (main w req)) =
        [(OpenImage, True), (MakeThumbnail, True), (SaveImage, True), (ReadEnviron, ok)]"
    by (auto simp: run_defs split: sum.splits option.splits if_splits)
next
  assume h: "environ w ''AzureWebJobsStorage'' = None
        \<or> (\<exists>conn_str e. environ w ''AzureWebJobsStorage'' = Some conn_str
              \<and> from_connection_string w conn_str = Inl e)"
  then show "uploads (snd (main w req)) = []"
    by (auto simp: run_defs split: sum.splits option.splits if_splits)
  from h show "writes (snd (main w req)) = []"
    by (auto simp: run_defs split: sum.splits option.splits if_splits)
  from h show "status_code (fst (main w req)) \<noteq> 200"
    by (auto simp: run_defs split: sum.splits option.splits if_splits)
  fix file' img thumb thumb_buffer
  assume s: "uploaded_file req = Some file' \<and> file_bool w file'
            \<and> Image_open w (content file') = Inr img
            \<and> Image_thumbnail w img (128, 128) = Inr thumb
            \<and> Image_save w thumb ''JPEG'' = Inr thumb_buffer"
  from h s show e: "fst (main w req) = error_processing_image"
    by (auto simp: run_defs split: sum.splits option.splits if_splits)
  show "status_code (fst (main w req)) = 500"
    by (simp add: e error_processing_image_def)
qed

theorem credential_read_after_encoding_witness:
  "(ReadEnviron, False) \<in> set (snd (main no_credential_world photo_request))
   \<and> environ no_credential_world ''AzureWebJobsStorage'' = None
   \<and> uploaded_file photo_request = Some photo \<and> file_bool no_credential_world photo
   \<and> Image_open no_credential_world (content photo) = Inr jpeg_bytes
   \<and> Image_thumbnail no_credential_world jpeg_bytes (128, 128) = Inr jpeg_bytes
   \<and> Image_save no_credential_world jpeg_bytes ''JPEG'' = Inr (jpeg_bytes @ [0])
   \<and> take 4 (snd (main no_credential_world photo_request)) =
        [(OpenImage, True), (MakeThumbnail, True), (SaveImage, True), (ReadEnviron, False)]
   \<and> uploads (snd (main no_credential_world photo_request)) = []
   \<and> writes (snd (main no_credential_world photo_request)) = []
   \<and> status_code (fst (main no_credential_world photo_request)) = 500"
proof -
  let ?w = no_credential_world
  have a: "(ReadEnviron, False) \<in> set (snd (main ?w photo_request))"
    by (simp add: demo_defs run_defs)
  have b: "environ ?w ''AzureWebJobsStorage'' = None"
    by (simp add: no_credential_world_def demo_world_def)
  have c: "uploaded_file photo_request = Some photo \<and> file_bool ?w photo
      \<and> Image_open ?w (content photo) = Inr jpeg_bytes
      \<and> Image_thumbnail ?w jpeg_bytes (128, 128) = Inr jpeg_bytes
      \<and> Image_save ?w jpeg_bytes ''JPEG'' = Inr (jpeg_bytes @ [0])"
    by (simp add: demo_defs uploaded_file_def)
  note r = credential_read_after_encoding [of ?w photo_request]
  from r a have 1: "take 4 (snd (main ?w photo_request)) =
        [(OpenImage, True), (MakeThumbnail, True), (SaveImage, True), (ReadEnviron, False)]"
    by blast
  from r b have 2: "uploads (snd (main ?w photo_request)) = []"
    and 3: "writes (snd (main ?w photo_request)) = []"
    by blast+
  from r b c have 4: "status_code (fst (main ?w photo_request)) = 500"
    by blast
  show ?thesis
    using a b c 1 2 3 4 by blast
qed

end
